theory Spec2Isabelle
  imports Main "HOL-Library.Sublist"
begin

section \<open>The in-memory ledger of banking-system.py\<close>

text \<open>
  The program keeps a registry \<open>BankingSystem.accounts\<close> of \<open>BankAccount\<close> objects.
  The two classes are embedded below, method by method. Mutation of \<open>self\<close> is explicit
  state passing: a method takes the object and returns the updated object together with
  the value the Python method returns.

  Three things the methods read come from the runtime and not from their arguments:
  the text of \<open>uuid.uuid4()\<close>, \<open>datetime.date.today()\<close> and \<open>datetime.datetime.now()\<close>.
  They are extra arguments of the embedded functions, so that every possible draw of the
  generator and every clock reading is covered by a universally quantified variable.

  Amounts are Python integers, embedded as \<open>int\<close>: addition, subtraction and
  comparison are exact. The form layer passes \<open>float(text)\<close> for a text of decimal
  digits; as long as every value involved is a whole number of magnitude at most
  \<open>2 ^ 53\<close>, binary64 computes the same sums, differences and comparisons and prints the
  same \<open>.2f\<close> text as the integer operations used here. Rounding beyond that range is
  not modelled.
\<close>

subsection \<open>Runtime values and their text\<close>

datatype date = Date nat nat nat

datatype datetime = DateTime date nat nat nat nat

text \<open>\<open>str\<close> of a non-negative Python integer: its decimal digits.\<close>

fun str_nat :: "nat \<Rightarrow> string" where
  "str_nat n =
     (if n < 10 then [''0123456789'' ! n]
      else str_nat (n div 10) @ [''0123456789'' ! (n mod 10)])"

declare str_nat.simps [simp del]

text \<open>The \<open>%0wd\<close> conversion on a non-negative number: zeros on the left up to width \<open>w\<close>.\<close>

definition zero_pad :: "nat \<Rightarrow> nat \<Rightarrow> string" where
  "zero_pad w n = replicate (w - length (str_nat n)) (CHR ''0'') @ str_nat n"

text \<open>\<open>str\<close> of a \<open>datetime.date\<close> is its ISO form \<open>YYYY-MM-DD\<close>.\<close>

fun str_date :: "date \<Rightarrow> string" where
  "str_date (Date y m d) = zero_pad 4 y @ ''-'' @ zero_pad 2 m @ ''-'' @ zero_pad 2 d"

text \<open>
  \<open>str\<close> of a naive \<open>datetime.datetime\<close>: the ISO form with a space as separator, the
  microseconds printed only when they are not zero.
\<close>

fun str_datetime :: "datetime \<Rightarrow> string" where
  "str_datetime (DateTime d h mi s us) =
     str_date d @ '' '' @ zero_pad 2 h @ '':'' @ zero_pad 2 mi @ '':'' @ zero_pad 2 s @
     (if us = 0 then [] else ''.'' @ zero_pad 6 us)"

text \<open>
  The format specification \<open>.2f\<close> applied to a whole number: sign, digits, \<open>.00\<close>.
  (Python converts an integer to binary64 before it formats it, which is exact up to
  \<open>2 ^ 53\<close>.)
\<close>

definition format_2f :: "int \<Rightarrow> string" where
  "format_2f x = (if x < 0 then ''-'' else []) @ str_nat (nat \<bar>x\<bar>) @ ''.00''"

text \<open>\<open>sep.join(parts)\<close>.\<close>

fun join :: "string \<Rightarrow> string list \<Rightarrow> string" where
  "join sep [] = []"
| "join sep [p] = p"
| "join sep (p # q # ps) = p @ sep @ join sep (q # ps)"

subsection \<open>class BankAccount\<close>

type_synonym transaction = "string \<times> int \<times> datetime"

record BankAccount =
  account_number :: string
  account_holder_name :: string
  balance :: int
  account_type :: string
  transactions :: "transaction list"
  creation_date :: date

text \<open>
  \<open>__init__(self, account_holder_name, initial_balance=0.0, account_type="Savings")\<close>.
  \<open>uuid4\<close> is the text \<open>str(uuid.uuid4())\<close> drawn for this object, \<open>today\<close> the reading of
  \<open>datetime.date.today()\<close>. The registry always passes all three arguments, so the
  defaults never apply there.
\<close>

definition BankAccount_init :: "string \<Rightarrow> int \<Rightarrow> string \<Rightarrow> string \<Rightarrow> date \<Rightarrow> BankAccount" where
  "BankAccount_init name initial_balance acc_type uuid4 today =
     \<lparr> account_number = take 8 uuid4,
       account_holder_name = name,
       balance = initial_balance,
       account_type = acc_type,
       transactions = [],
       creation_date = today \<rparr>"

text \<open>\<open>deposit(self, amount)\<close>; \<open>now\<close> is the reading of \<open>datetime.datetime.now()\<close>.\<close>

definition deposit :: "BankAccount \<Rightarrow> int \<Rightarrow> datetime \<Rightarrow> BankAccount \<times> string" where
  "deposit self amount now =
     (let self1 = self\<lparr>balance := balance self + amount\<rparr>;
          self2 = self1\<lparr>transactions := transactions self1 @ [(''Deposit'', amount, now)]\<rparr>
      in (self2,
          ''Deposited $'' @ format_2f amount @ ''. New balance: $'' @ format_2f (balance self2)))"

text \<open>\<open>withdraw(self, amount)\<close>: the guard returns before anything is written.\<close>

definition withdraw :: "BankAccount \<Rightarrow> int \<Rightarrow> datetime \<Rightarrow> BankAccount \<times> string" where
  "withdraw self amount now =
     (if amount > balance self then (self, ''Insufficient funds.'')
      else
        let self1 = self\<lparr>balance := balance self - amount\<rparr>;
            self2 = self1\<lparr>transactions := transactions self1 @ [(''Withdraw'', - amount, now)]\<rparr>
        in (self2,
            ''Withdrew $'' @ format_2f amount @ ''. New balance: $'' @ format_2f (balance self2)))"

text \<open>\<open>get_details(self)\<close>: five lines separated by newline characters.\<close>

definition get_details :: "BankAccount \<Rightarrow> string" where
  "get_details self =
     ''Account: '' @ account_number self @ [CHR 0x0A] @
     ''Holder: '' @ account_holder_name self @ [CHR 0x0A] @
     ''Type: '' @ account_type self @ [CHR 0x0A] @
     ''Balance: $'' @ format_2f (balance self) @ [CHR 0x0A] @
     ''Created: '' @ str_date (creation_date self)"

text \<open>\<open>transaction_history(self)\<close>.\<close>

definition transaction_history :: "BankAccount \<Rightarrow> string" where
  "transaction_history self =
     (if transactions self = [] then ''No transactions yet.''
      else join [CHR 0x0A]
             (map (\<lambda>(kind, amount, at). str_datetime at @ '' - '' @ kind @ '': $'' @ format_2f amount)
                  (transactions self)))"

subsection \<open>class BankingSystem\<close>

record BankingSystem =
  accounts :: "string \<rightharpoonup> BankAccount"

definition BankingSystem_init :: BankingSystem where
  "BankingSystem_init = \<lparr> accounts = Map.empty \<rparr>"

text \<open>
  \<open>create_account(self, name, balance, account_type)\<close>: the account is stored with
  \<open>self.accounts[acc.account_number] = acc\<close>, an assignment that overwrites.
\<close>

definition create_account ::
  "BankingSystem \<Rightarrow> string \<Rightarrow> int \<Rightarrow> string \<Rightarrow> string \<Rightarrow> date \<Rightarrow> BankingSystem \<times> string" where
  "create_account self name bal acc_type uuid4 today =
     (let acc = BankAccount_init name bal acc_type uuid4 today
      in (self\<lparr>accounts := (accounts self)(account_number acc \<mapsto> acc)\<rparr>, account_number acc))"

text \<open>\<open>get_account(self, acc_number)\<close> is \<open>dict.get\<close>: \<open>None\<close> for a missing key.\<close>

definition get_account :: "BankingSystem \<Rightarrow> string \<Rightarrow> BankAccount option" where
  "get_account self acc_number = accounts self acc_number"

text \<open>\<open>delete_account(self, acc_number)\<close> is \<open>dict.pop(acc_number, None)\<close>.\<close>

definition delete_account :: "BankingSystem \<Rightarrow> string \<Rightarrow> BankingSystem \<times> BankAccount option" where
  "delete_account self acc_number =
     (self\<lparr>accounts := (accounts self)(acc_number := None)\<rparr>, accounts self acc_number)"

subsection \<open>Sequences of calls\<close>

text \<open>
  A caller's history with one account is a list of method calls, each with its argument
  and the clock reading it meets. \<open>do_calls\<close> runs them in order on the same object and
  collects what each call returned.
\<close>

datatype account_call = DepositCall int datetime | WithdrawCall int datetime

fun do_call :: "BankAccount \<Rightarrow> account_call \<Rightarrow> BankAccount \<times> string" where
  "do_call self (DepositCall amount now) = deposit self amount now"
| "do_call self (WithdrawCall amount now) = withdraw self amount now"

fun do_calls :: "BankAccount \<Rightarrow> account_call list \<Rightarrow> BankAccount \<times> string list" where
  "do_calls self [] = (self, [])"
| "do_calls self (c # cs) =
     (let (self1, r) = do_call self c;
          (self2, rs) = do_calls self1 cs
      in (self2, r # rs))"

text \<open>
  The record a call writes when it goes through; and the histories in which no deposit
  has a negative amount (the form layer accepts digits only, so it sends no other).
\<close>

fun record_of :: "account_call \<Rightarrow> transaction" where
  "record_of (DepositCall amount now) = (''Deposit'', amount, now)"
| "record_of (WithdrawCall amount now) = (''Withdraw'', - amount, now)"

fun deposits_non_negative :: "account_call list \<Rightarrow> bool" where
  "deposits_non_negative [] = True"
| "deposits_non_negative (DepositCall amount now # cs) = (0 \<le> amount \<and> deposits_non_negative cs)"
| "deposits_non_negative (WithdrawCall amount now # cs) = deposits_non_negative cs"

text \<open>
  The same for the registry: a history is a list of \<open>create_account\<close> and
  \<open>delete_account\<close> calls, a creation carrying the UUID text and the date it meets.
\<close>

datatype ledger_call = CreateCall string int string string date | DeleteCall string

datatype ledger_result = Created string | Deleted "BankAccount option"

fun do_ledger_call :: "BankingSystem \<Rightarrow> ledger_call \<Rightarrow> BankingSystem \<times> ledger_result" where
  "do_ledger_call self (CreateCall name bal acc_type uuid4 today) =
     (let (self1, acc_number) = create_account self name bal acc_type uuid4 today
      in (self1, Created acc_number))"
| "do_ledger_call self (DeleteCall acc_number) =
     (let (self1, removed) = delete_account self acc_number
      in (self1, Deleted removed))"

fun do_ledger_calls :: "BankingSystem \<Rightarrow> ledger_call list \<Rightarrow> BankingSystem \<times> ledger_result list" where
  "do_ledger_calls self [] = (self, [])"
| "do_ledger_calls self (c # cs) =
     (let (self1, r) = do_ledger_call self c;
          (self2, rs) = do_ledger_calls self1 cs
      in (self2, r # rs))"

text \<open>The ids the creations of a history returned, and the 8-character prefixes of the
  UUID texts the creations of a history met, both in call order.\<close>

fun created_ids :: "ledger_result list \<Rightarrow> string list" where
  "created_ids [] = []"
| "created_ids (Created acc_number # rs) = acc_number # created_ids rs"
| "created_ids (Deleted removed # rs) = created_ids rs"

fun drawn_prefixes :: "ledger_call list \<Rightarrow> string list" where
  "drawn_prefixes [] = []"
| "drawn_prefixes (CreateCall name bal acc_type uuid4 today # cs) = take 8 uuid4 # drawn_prefixes cs"
| "drawn_prefixes (DeleteCall acc_number # cs) = drawn_prefixes cs"

section \<open>Properties\<close>

subsection \<open>Withdrawals\<close>

text \<open>
  C1. When the amount exceeds the balance, \<open>withdraw\<close> returns the text
  \<open>Insufficient funds.\<close> and the account it leaves behind is the account it was given:
  same balance, same transaction list, same everything else.
\<close>

theorem withdraw_insufficient:
  "amount > balance self \<Longrightarrow> withdraw self amount now = (self, ''Insufficient funds.'')"
  by (simp add: withdraw_def)

theorem withdraw_insufficient_witness:
  "withdraw (BankAccount_init ''Bob'' 100 ''Savings'' ''0f8fad5b-d9cb-469f-a165-70867728950e'' (Date 2024 5 17))
            200 (DateTime (Date 2024 5 18) 9 30 0 0)
   = (BankAccount_init ''Bob'' 100 ''Savings'' ''0f8fad5b-d9cb-469f-a165-70867728950e'' (Date 2024 5 17),
      ''Insufficient funds.'')"
  using withdraw_insufficient
          [of "BankAccount_init ''Bob'' 100 ''Savings'' ''0f8fad5b-d9cb-469f-a165-70867728950e'' (Date 2024 5 17)"
              200 "DateTime (Date 2024 5 18) 9 30 0 0"]
  by (simp add: BankAccount_init_def)


subsection \<open>Facts about single do_calls\<close>

lemma deposit_eq:
  "deposit self amount now =
     (self\<lparr>balance := balance self + amount,
            transactions := transactions self @ [(''Deposit'', amount, now)]\<rparr>,
      ''Deposited $'' @ format_2f amount @ ''. New balance: $'' @ format_2f (balance self + amount))"
  by (simp add: deposit_def Let_def)

lemma withdraw_eq:
  "amount \<le> balance self \<Longrightarrow>
   withdraw self amount now =
     (self\<lparr>balance := balance self - amount,
            transactions := transactions self @ [(''Withdraw'', - amount, now)]\<rparr>,
      ''Withdrew $'' @ format_2f amount @ ''. New balance: $'' @ format_2f (balance self - amount))"
  by (simp add: withdraw_def Let_def)

lemma sublist_last_part: "sublist xs (a @ b @ c @ xs)"
  using sublist_append_leftI [of xs "a @ b @ c"] by simp

lemma call_transactions:
  "do_call self c = (self', r) \<Longrightarrow>
   transactions self' =
     transactions self @ (if r = ''Insufficient funds.'' then [] else [record_of c])"
  by (cases c) (auto simp: deposit_def withdraw_def Let_def split: if_splits)

lemma call_balance_non_negative:
  "0 \<le> balance self \<Longrightarrow> deposits_non_negative [c] \<Longrightarrow> 0 \<le> balance (fst (do_call self c))"
  by (cases c) (auto simp: deposit_def withdraw_def Let_def)

lemma calls_length: "do_calls self cs = (self', rs) \<Longrightarrow> length rs = length cs"
  by (induction cs arbitrary: self self' rs) (auto simp: Let_def split: prod.splits)

lemma filter_zip_snd_length:
  "length xs = length ys \<Longrightarrow>
   length (filter (\<lambda>(x, y). P y) (zip xs ys)) = length (filter P ys)"
  by (induction xs ys rule: list_induct2) auto

lemma deposits_non_negative_Cons:
  "deposits_non_negative (c # cs) \<Longrightarrow> deposits_non_negative [c] \<and> deposits_non_negative cs"
  by (cases c) auto

lemma deposits_non_negative_take:
  "deposits_non_negative cs \<Longrightarrow> deposits_non_negative (take n cs)"
proof (induction cs arbitrary: n)
  case Nil
  then show ?case by simp
next
  case (Cons c cs)
  show ?case
  proof (cases n)
    case 0
    then show ?thesis by simp
  next
    case (Suc m)
    from Cons.prems have "deposits_non_negative [c]" and "deposits_non_negative cs"
      using deposits_non_negative_Cons by blast+
    with Cons.IH [of m] Suc show ?thesis by (cases c) auto
  qed
qed

lemma calls_balance_non_negative:
  "0 \<le> balance self \<Longrightarrow> deposits_non_negative cs \<Longrightarrow> 0 \<le> balance (fst (do_calls self cs))"
proof (induction cs arbitrary: self)
  case Nil
  then show ?case by simp
next
  case (Cons c cs)
  from Cons.prems have c: "deposits_non_negative [c]" and cs: "deposits_non_negative cs"
    using deposits_non_negative_Cons by blast+
  have "0 \<le> balance (fst (do_call self c))"
    using Cons.prems(1) c by (rule call_balance_non_negative)
  from Cons.IH [OF this cs] show ?case
    by (simp add: Let_def case_prod_beta)
qed

lemma str_nat_100: "str_nat 100 = ''100''"
  by (simp add: str_nat.simps)

lemma details_holder: "sublist (account_holder_name self) (get_details self)"
  unfolding get_details_def
  using sublist_appendI
          [of "account_holder_name self" "''Account: '' @ account_number self @ [CHR 0x0A] @ ''Holder: ''"]
  by simp

lemma details_type: "sublist (account_type self) (get_details self)"
  unfolding get_details_def
  using sublist_appendI
          [of "account_type self"
              "''Account: '' @ account_number self @ [CHR 0x0A] @
               ''Holder: '' @ account_holder_name self @ [CHR 0x0A] @ ''Type: ''"]
  by simp

lemma details_balance: "sublist (format_2f (balance self)) (get_details self)"
  unfolding get_details_def
  using sublist_appendI
          [of "format_2f (balance self)"
              "''Account: '' @ account_number self @ [CHR 0x0A] @
               ''Holder: '' @ account_holder_name self @ [CHR 0x0A] @
               ''Type: '' @ account_type self @ [CHR 0x0A] @ ''Balance: $''"]
  by simp

lemma create_account_id: "snd (create_account self name bal acc_type uuid4 today) = take 8 uuid4"
  by (simp add: create_account_def BankAccount_init_def Let_def)

lemma ledger_calls_ids: "created_ids (snd (do_ledger_calls self cs)) = drawn_prefixes cs"
proof (induction cs arbitrary: self)
  case Nil
  then show ?case by simp
next
  case (Cons c cs)
  then show ?case
    by (cases c) (simp_all add: Let_def case_prod_beta create_account_id)
qed


lemma deposits_run:
  "do_calls self (map (\<lambda>(amount, now). DepositCall amount now) ds) = (self', rs) \<Longrightarrow>
   balance self' = balance self + sum_list (map fst ds) \<and>
   transactions self' = transactions self @ map (\<lambda>(amount, now). (''Deposit'', amount, now)) ds \<and>
   length rs = length ds \<and>
   (\<forall>i < length ds.
      rs ! i = ''Deposited $'' @ format_2f (fst (ds ! i)) @ ''. New balance: $'' @
               format_2f (balance self + sum_list (map fst (take (Suc i) ds))))"
proof (induction ds arbitrary: self self' rs)
  case Nil
  then show ?case by simp
next
  case (Cons d ds)
  obtain amount now where d: "d = (amount, now)" by (cases d)
  let ?self1 = "fst (deposit self amount now)"
  let ?r = "''Deposited $'' @ format_2f amount @ ''. New balance: $'' @ format_2f (balance self + amount)"
  obtain rs1 where rs: "rs = ?r # rs1"
    and rest: "do_calls ?self1 (map (\<lambda>(amount, now). DepositCall amount now) ds) = (self', rs1)"
    using Cons.prems d by (auto simp: Let_def deposit_eq split: prod.splits)
  have b1: "balance ?self1 = balance self + amount"
    and t1: "transactions ?self1 = transactions self @ [(''Deposit'', amount, now)]"
    by (simp_all add: deposit_eq)
  note IH = Cons.IH [OF rest]
  have "rs ! i = ''Deposited $'' @ format_2f (fst ((d # ds) ! i)) @ ''. New balance: $'' @
               format_2f (balance self + sum_list (map fst (take (Suc i) (d # ds))))"
    if i: "i < length (d # ds)" for i
  proof (cases i)
    case 0
    then show ?thesis by (simp add: rs d)
  next
    case (Suc j)
    with i have j: "j < length ds" by simp
    from IH j have "rs1 ! j = ''Deposited $'' @ format_2f (fst (ds ! j)) @ ''. New balance: $'' @
               format_2f (balance ?self1 + sum_list (map fst (take (Suc j) ds)))"
      by blast
    then show ?thesis
      by (simp add: Suc rs d b1 add.assoc)
  qed
  moreover have "balance self' = balance self + sum_list (map fst (d # ds))"
    using IH by (simp add: b1 d)
  moreover have "transactions self' =
      transactions self @ map (\<lambda>(amount, now). (''Deposit'', amount, now)) (d # ds)"
    using IH by (simp add: t1 d)
  moreover have "length rs = length (d # ds)"
    using IH by (simp add: rs)
  ultimately show ?case by blast
qed


lemma call_refused_iff:
  "snd (do_call self c) = ''Insufficient funds.'' \<longleftrightarrow>
   (\<exists>amount now. c = WithdrawCall amount now \<and> balance self < amount)"
  by (cases c) (simp_all add: deposit_eq withdraw_def Let_def)

lemma calls_nth:
  "i < length cs \<Longrightarrow>
   snd (do_calls self cs) ! i = snd (do_call (fst (do_calls self (take i cs))) (cs ! i))"
proof (induction cs arbitrary: self i)
  case Nil
  then show ?case by simp
next
  case (Cons c cs)
  show ?case
  proof (cases i)
    case 0
    then show ?thesis by (simp add: Let_def case_prod_beta)
  next
    case (Suc j)
    with Cons.prems have "j < length cs" by simp
    from Cons.IH [OF this, of "fst (do_call self c)"] Suc show ?thesis
      by (simp add: Let_def case_prod_beta)
  qed
qed


subsection \<open>The balance invariant\<close>

text \<open>
  C2, as the code has it. The constructor stores whatever initial balance it is given and
  \<open>deposit\<close> adds whatever amount it is given, so the balance is non-negative at all
  times only for callers that pass a non-negative initial balance and non-negative
  deposits (withdrawal amounts are free: the guard of \<open>withdraw\<close> takes care of them).
  Under these two conditions the balance is non-negative after construction and after
  every prefix of every sequence of deposits and withdrawals.
\<close>

theorem balance_non_negative:
  "0 \<le> initial_balance \<Longrightarrow> deposits_non_negative cs \<Longrightarrow>
   0 \<le> balance (fst (do_calls (BankAccount_init name initial_balance acc_type uuid4 today)
                               (take n cs)))"
proof -
  assume init: "0 \<le> initial_balance" and cs: "deposits_non_negative cs"
  have "0 \<le> balance (BankAccount_init name initial_balance acc_type uuid4 today)"
    using init by (simp add: BankAccount_init_def)
  moreover have "deposits_non_negative (take n cs)"
    using cs by (rule deposits_non_negative_take)
  ultimately show ?thesis
    by (rule calls_balance_non_negative)
qed

theorem balance_non_negative_witness:
  "0 \<le> balance (fst (do_calls
       (BankAccount_init ''Bob'' 100 ''Savings'' ''0f8fad5b-d9cb-469f-a165-70867728950e'' (Date 2024 5 17))
       (take 3 [DepositCall 50 (DateTime (Date 2024 5 18) 9 30 0 0),
                WithdrawCall 500 (DateTime (Date 2024 5 18) 9 31 0 0),
                WithdrawCall 150 (DateTime (Date 2024 5 18) 9 32 0 5)])))"
  using balance_non_negative
          [of 100 "[DepositCall 50 (DateTime (Date 2024 5 18) 9 30 0 0),
                    WithdrawCall 500 (DateTime (Date 2024 5 18) 9 31 0 0),
                    WithdrawCall 150 (DateTime (Date 2024 5 18) 9 32 0 5)]"
              "''Bob''" "''Savings''" "''0f8fad5b-d9cb-469f-a165-70867728950e''" "Date 2024 5 17" 3]
  by simp

text \<open>
  C2 as stated fails twice: an account constructed with initial balance \<open>-1\<close> has a
  negative balance from the start, and a deposit of \<open>-5\<close> into an account holding \<open>0\<close>
  leaves \<open>-5\<close>.
\<close>

theorem balance_non_negative_counterexample:
  "\<not> 0 \<le> balance (BankAccount_init ''Eve'' (- 1) ''Savings''
                      ''0f8fad5b-d9cb-469f-a165-70867728950e'' (Date 2024 5 17))
   \<and> \<not> 0 \<le> balance (fst (deposit
          (BankAccount_init ''Eve'' 0 ''Savings'' ''0f8fad5b-d9cb-469f-a165-70867728950e'' (Date 2024 5 17))
          (- 5) (DateTime (Date 2024 5 18) 9 30 0 0)))"
  by (simp add: BankAccount_init_def deposit_def Let_def)

subsection \<open>Successful withdrawals\<close>

text \<open>
  C3. When the amount does not exceed the balance, \<open>withdraw\<close> lowers the balance by
  exactly the amount, appends one record \<open>("Withdraw", -amount, now)\<close> at the end of the
  transaction list, and returns the text \<open>Withdrew $<amount>. New balance: $<balance>\<close>,
  which contains the new balance in its two-decimal form.
\<close>

theorem withdraw_sufficient:
  "amount \<le> balance self \<Longrightarrow> withdraw self amount now = (self', msg) \<Longrightarrow>
   balance self' = balance self - amount \<and>
   transactions self' = transactions self @ [(''Withdraw'', - amount, now)] \<and>
   msg = ''Withdrew $'' @ format_2f amount @ ''. New balance: $'' @ format_2f (balance self') \<and>
   sublist (format_2f (balance self')) msg"
proof -
  assume le: "amount \<le> balance self" and run: "withdraw self amount now = (self', msg)"
  from run withdraw_eq [OF le, of now]
  have self': "self' = self\<lparr>balance := balance self - amount,
                 transactions := transactions self @ [(''Withdraw'', - amount, now)]\<rparr>"
    and msg: "msg = ''Withdrew $'' @ format_2f amount @ ''. New balance: $'' @
                    format_2f (balance self - amount)"
    by simp_all
  have "sublist (format_2f (balance self - amount)) msg"
    unfolding msg by (rule sublist_last_part)
  with self' msg show ?thesis by simp
qed

theorem withdraw_sufficient_witness:
  "balance (fst (withdraw
       (BankAccount_init ''Bob'' 100 ''Savings'' ''0f8fad5b-d9cb-469f-a165-70867728950e'' (Date 2024 5 17))
       30 (DateTime (Date 2024 5 18) 9 30 0 0))) = 70
   \<and> snd (withdraw
       (BankAccount_init ''Bob'' 100 ''Savings'' ''0f8fad5b-d9cb-469f-a165-70867728950e'' (Date 2024 5 17))
       30 (DateTime (Date 2024 5 18) 9 30 0 0)) = ''Withdrew $30.00. New balance: $70.00''
   \<and> transactions (fst (withdraw
       (BankAccount_init ''Bob'' 100 ''Savings'' ''0f8fad5b-d9cb-469f-a165-70867728950e'' (Date 2024 5 17))
       30 (DateTime (Date 2024 5 18) 9 30 0 0))) = [(''Withdraw'', - 30, DateTime (Date 2024 5 18) 9 30 0 0)]"
proof -
  let ?a = "BankAccount_init ''Bob'' 100 ''Savings'' ''0f8fad5b-d9cb-469f-a165-70867728950e'' (Date 2024 5 17)"
  let ?t = "DateTime (Date 2024 5 18) 9 30 0 0"
  have le: "30 \<le> balance ?a" by (simp add: BankAccount_init_def)
  have run: "withdraw ?a 30 ?t = (fst (withdraw ?a 30 ?t), snd (withdraw ?a 30 ?t))" by simp
  have b: "balance ?a = 100" and t: "transactions ?a = []" by (simp_all add: BankAccount_init_def)
  have f30: "format_2f 30 = ''30.00''" and f70: "format_2f 70 = ''70.00''"
    by (simp_all add: format_2f_def str_nat.simps)
  from withdraw_sufficient [OF le run] show ?thesis
    by (simp add: b t f30 f70)
qed


subsection \<open>Deposits\<close>

text \<open>
  C4. \<open>deposit\<close> has no failing branch. For every account and every list of deposited
  amounts (each with the clock reading it meets), run in order on the account: the final
  balance is the initial balance plus the sum of the amounts; every deposit wrote its
  record; there is one returned text per deposit; and the text of the \<open>i\<close>-th deposit is
  the confirmation \<open>Deposited $<amount>. New balance: $<balance>\<close> carrying the balance
  reached after that deposit, so in particular never the text of a refused withdrawal.
\<close>

theorem deposit_always_succeeds:
  "do_calls self (map (\<lambda>(amount, now). DepositCall amount now) ds) = (self', rs) \<Longrightarrow>
   balance self' = balance self + sum_list (map fst ds) \<and>
   transactions self' = transactions self @ map (\<lambda>(amount, now). (''Deposit'', amount, now)) ds \<and>
   length rs = length ds \<and>
   (\<forall>i < length ds.
      rs ! i = ''Deposited $'' @ format_2f (fst (ds ! i)) @ ''. New balance: $'' @
               format_2f (balance self + sum_list (map fst (take (Suc i) ds))) \<and>
      sublist (format_2f (balance self + sum_list (map fst (take (Suc i) ds)))) (rs ! i) \<and>
      rs ! i \<noteq> ''Insufficient funds.'')"
proof -
  assume run: "do_calls self (map (\<lambda>(amount, now). DepositCall amount now) ds) = (self', rs)"
  note facts = deposits_run [OF run]
  have "rs ! i = ''Deposited $'' @ format_2f (fst (ds ! i)) @ ''. New balance: $'' @
               format_2f (balance self + sum_list (map fst (take (Suc i) ds))) \<and>
      sublist (format_2f (balance self + sum_list (map fst (take (Suc i) ds)))) (rs ! i) \<and>
      rs ! i \<noteq> ''Insufficient funds.''" if i: "i < length ds" for i
  proof -
    from facts i
    have eq: "rs ! i = ''Deposited $'' @ format_2f (fst (ds ! i)) @ ''. New balance: $'' @
               format_2f (balance self + sum_list (map fst (take (Suc i) ds)))"
      by blast
    have "sublist (format_2f (balance self + sum_list (map fst (take (Suc i) ds)))) (rs ! i)"
      unfolding eq by (rule sublist_last_part)
    moreover have "rs ! i \<noteq> ''Insufficient funds.''"
      unfolding eq by simp
    ultimately show ?thesis using eq by blast
  qed
  with facts show ?thesis by blast
qed

theorem deposit_always_succeeds_witness:
  "do_calls (BankAccount_init ''Bob'' 100 ''Savings'' ''0f8fad5b-d9cb-469f-a165-70867728950e'' (Date 2024 5 17))
     (map (\<lambda>(amount, now). DepositCall amount now)
        [(50, DateTime (Date 2024 5 18) 9 30 0 0), (25, DateTime (Date 2024 5 19) 10 0 0 0)])
   = (\<lparr> account_number = ''0f8fad5b'', account_holder_name = ''Bob'', balance = 175,
        account_type = ''Savings'',
        transactions = [(''Deposit'', 50, DateTime (Date 2024 5 18) 9 30 0 0),
                        (''Deposit'', 25, DateTime (Date 2024 5 19) 10 0 0 0)],
        creation_date = Date 2024 5 17 \<rparr>,
      [''Deposited $50.00. New balance: $150.00'', ''Deposited $25.00. New balance: $175.00''])
   \<and> (175::int) = 100 + sum_list (map fst [(50::int, DateTime (Date 2024 5 18) 9 30 0 0),
                                           (25, DateTime (Date 2024 5 19) 10 0 0 0)])"
proof -
  let ?a = "BankAccount_init ''Bob'' 100 ''Savings'' ''0f8fad5b-d9cb-469f-a165-70867728950e'' (Date 2024 5 17)"
  let ?ds = "[(50::int, DateTime (Date 2024 5 18) 9 30 0 0), (25, DateTime (Date 2024 5 19) 10 0 0 0)]"
  obtain self' rs where run: "do_calls ?a (map (\<lambda>(amount, now). DepositCall amount now) ?ds) = (self', rs)"
    by (cases "do_calls ?a (map (\<lambda>(amount, now). DepositCall amount now) ?ds)")
  have fmt: "format_2f 50 = ''50.00''" "format_2f 25 = ''25.00''"
            "format_2f 150 = ''150.00''" "format_2f 175 = ''175.00''"
    by (simp_all add: format_2f_def str_nat.simps)
  have "do_calls ?a (map (\<lambda>(amount, now). DepositCall amount now) ?ds) =
      (\<lparr> account_number = ''0f8fad5b'', account_holder_name = ''Bob'', balance = 175,
        account_type = ''Savings'',
        transactions = [(''Deposit'', 50, DateTime (Date 2024 5 18) 9 30 0 0),
                        (''Deposit'', 25, DateTime (Date 2024 5 19) 10 0 0 0)],
        creation_date = Date 2024 5 17 \<rparr>,
      [''Deposited $50.00. New balance: $150.00'', ''Deposited $25.00. New balance: $175.00''])"
    by (simp add: BankAccount_init_def deposit_eq Let_def fmt)
  moreover from deposit_always_succeeds [OF run]
  have "balance self' = balance ?a + sum_list (map fst ?ds)" by blast
  ultimately show ?thesis using run by (simp add: BankAccount_init_def)
qed

subsection \<open>The transaction list\<close>

text \<open>
  C5. For every account and every sequence of deposit and withdraw calls, with \<open>rs\<close> the
  texts the calls returned. A call returned \<open>Insufficient funds.\<close> exactly when it was a
  withdrawal of more than the balance the account had at that moment; these are the
  failed calls, and every other call, so every deposit, is a successful one. The final
  transaction list is the initial one followed by the records of the successful calls, in
  call order and nothing else; so its length grew by the number of successful calls (for
  an account that starts with no transactions the length is that number), and the list
  the account started with is still there as a prefix, unchanged.
\<close>

theorem transactions_append_only:
  "do_calls self cs = (self', rs) \<Longrightarrow>
   length rs = length cs \<and>
   transactions self' =
     transactions self @
     map (\<lambda>(c, r). record_of c) (filter (\<lambda>(c, r). r \<noteq> ''Insufficient funds.'') (zip cs rs)) \<and>
   length (transactions self') =
     length (transactions self) + length (filter (\<lambda>r. r \<noteq> ''Insufficient funds.'') rs) \<and>
   prefix (transactions self) (transactions self') \<and>
   (\<forall>i < length cs.
      rs ! i = ''Insufficient funds.'' \<longleftrightarrow>
      (\<exists>amount now. cs ! i = WithdrawCall amount now \<and>
                     balance (fst (do_calls self (take i cs))) < amount))"
proof -
  assume run: "do_calls self cs = (self', rs)"
  have refused: "rs ! i = ''Insufficient funds.'' \<longleftrightarrow>
      (\<exists>amount now. cs ! i = WithdrawCall amount now \<and>
                     balance (fst (do_calls self (take i cs))) < amount)"
    if "i < length cs" for i
    using calls_nth [OF that, of self] call_refused_iff [of "fst (do_calls self (take i cs))" "cs ! i"] run
    by simp
  have len: "length rs = length cs"
    using run by (rule calls_length)
  have recs: "transactions self' =
     transactions self @
     map (\<lambda>(c, r). record_of c) (filter (\<lambda>(c, r). r \<noteq> ''Insufficient funds.'') (zip cs rs))"
    using run
  proof (induction cs arbitrary: self self' rs)
    case Nil
    then show ?case by simp
  next
    case (Cons c cs)
    obtain self1 r where step: "do_call self c = (self1, r)" by (cases "do_call self c")
    obtain rs1 where rest: "do_calls self1 cs = (self', rs1)" and rs: "rs = r # rs1"
      using Cons.prems step by (auto simp: Let_def split: prod.splits)
    from call_transactions [OF step] Cons.IH [OF rest] show ?case
      by (simp add: rs)
  qed
  have "length (filter (\<lambda>(c, r). r \<noteq> ''Insufficient funds.'') (zip cs rs)) =
        length (filter (\<lambda>r. r \<noteq> ''Insufficient funds.'') rs)"
    using len by (simp add: filter_zip_snd_length)
  with recs have "length (transactions self') =
     length (transactions self) + length (filter (\<lambda>r. r \<noteq> ''Insufficient funds.'') rs)"
    by simp
  moreover have "prefix (transactions self) (transactions self')"
    unfolding recs by simp
  ultimately show ?thesis using len recs refused by blast
qed

theorem transactions_append_only_witness:
  "do_calls (BankAccount_init ''Bob'' 100 ''Savings'' ''0f8fad5b-d9cb-469f-a165-70867728950e'' (Date 2024 5 17))
     [DepositCall 50 (DateTime (Date 2024 5 18) 9 30 0 0),
      WithdrawCall 500 (DateTime (Date 2024 5 18) 9 31 0 0),
      WithdrawCall 20 (DateTime (Date 2024 5 18) 9 32 0 5)]
   = (\<lparr> account_number = ''0f8fad5b'', account_holder_name = ''Bob'', balance = 130,
        account_type = ''Savings'',
        transactions = [(''Deposit'', 50, DateTime (Date 2024 5 18) 9 30 0 0),
                        (''Withdraw'', - 20, DateTime (Date 2024 5 18) 9 32 0 5)],
        creation_date = Date 2024 5 17 \<rparr>,
      [''Deposited $50.00. New balance: $150.00'', ''Insufficient funds.'',
       ''Withdrew $20.00. New balance: $130.00''])
   \<and> length [(''Deposit'', 50::int, DateTime (Date 2024 5 18) 9 30 0 0),
              (''Withdraw'', - 20, DateTime (Date 2024 5 18) 9 32 0 5)]
     = 0 + length (filter (\<lambda>r. r \<noteq> ''Insufficient funds.'')
         [''Deposited $50.00. New balance: $150.00'', ''Insufficient funds.'',
          ''Withdrew $20.00. New balance: $130.00''])"
proof -
  let ?a = "BankAccount_init ''Bob'' 100 ''Savings'' ''0f8fad5b-d9cb-469f-a165-70867728950e'' (Date 2024 5 17)"
  let ?cs = "[DepositCall 50 (DateTime (Date 2024 5 18) 9 30 0 0),
      WithdrawCall 500 (DateTime (Date 2024 5 18) 9 31 0 0),
      WithdrawCall 20 (DateTime (Date 2024 5 18) 9 32 0 5)]"
  let ?a' = "\<lparr> account_number = ''0f8fad5b'', account_holder_name = ''Bob'', balance = 130,
        account_type = ''Savings'',
        transactions = [(''Deposit'', 50, DateTime (Date 2024 5 18) 9 30 0 0),
                        (''Withdraw'', - 20, DateTime (Date 2024 5 18) 9 32 0 5)],
        creation_date = Date 2024 5 17 \<rparr>"
  let ?rs = "[''Deposited $50.00. New balance: $150.00'', ''Insufficient funds.'',
       ''Withdrew $20.00. New balance: $130.00'']"
  have fmt: "format_2f 50 = ''50.00''" "format_2f 20 = ''20.00''"
            "format_2f 150 = ''150.00''" "format_2f 130 = ''130.00''"
    by (simp_all add: format_2f_def str_nat.simps)
  have run: "do_calls ?a ?cs = (?a', ?rs)"
    by (simp add: BankAccount_init_def deposit_eq withdraw_def Let_def fmt)
  from transactions_append_only [OF run]
  have "length (transactions ?a') =
     length (transactions ?a) + length (filter (\<lambda>r. r \<noteq> ''Insufficient funds.'') ?rs)"
    by blast
  then have "length [(''Deposit'', 50::int, DateTime (Date 2024 5 18) 9 30 0 0),
              (''Withdraw'', - 20, DateTime (Date 2024 5 18) 9 32 0 5)]
     = 0 + length (filter (\<lambda>r. r \<noteq> ''Insufficient funds.'') ?rs)"
    by (simp add: BankAccount_init_def)
  with run show ?thesis by blast
qed


subsection \<open>The registry\<close>

text \<open>
  C6. For every state of the registry and every id. If the id is not a key of the
  registry, \<open>get_account\<close> returns \<open>None\<close> (the lookup is \<open>dict.get\<close>, which has no
  raising branch) and \<open>delete_account\<close> returns \<open>None\<close> and leaves the registry as it
  was. If the id is the key of a stored account, \<open>delete_account\<close> returns that account,
  removes exactly that key and leaves every other entry alone. In both cases
  \<open>get_account\<close> on the id after \<open>delete_account\<close> on the id returns \<open>None\<close>.
\<close>

theorem lookup_and_delete:
  "(acc_number \<notin> dom (accounts self) \<longrightarrow>
      get_account self acc_number = None \<and>
      delete_account self acc_number = (self, None)) \<and>
   (accounts self acc_number = Some acc \<longrightarrow>
      snd (delete_account self acc_number) = Some acc \<and>
      dom (accounts (fst (delete_account self acc_number))) = dom (accounts self) - {acc_number} \<and>
      (\<forall>k. k \<noteq> acc_number \<longrightarrow>
         get_account (fst (delete_account self acc_number)) k = get_account self k)) \<and>
   get_account (fst (delete_account self acc_number)) acc_number = None"
proof (intro conjI impI allI)
  assume absent: "acc_number \<notin> dom (accounts self)"
  then have none: "accounts self acc_number = None" by (simp add: domIff)
  then show "get_account self acc_number = None" by (simp add: get_account_def)
  from none have "(accounts self)(acc_number := None) = accounts self"
    by (simp add: fun_upd_idem)
  with none show "delete_account self acc_number = (self, None)"
    by (simp add: delete_account_def)
next
  assume "accounts self acc_number = Some acc"
  then show "snd (delete_account self acc_number) = Some acc"
    by (simp add: delete_account_def)
next
  show "dom (accounts (fst (delete_account self acc_number))) = dom (accounts self) - {acc_number}"
    by (simp add: delete_account_def)
next
  fix k assume "k \<noteq> acc_number"
  then show "get_account (fst (delete_account self acc_number)) k = get_account self k"
    by (simp add: delete_account_def get_account_def)
next
  show "get_account (fst (delete_account self acc_number)) acc_number = None"
    by (simp add: delete_account_def get_account_def)
qed

theorem lookup_and_delete_witness:
  "get_account
     (fst (create_account BankingSystem_init ''Alice'' 100 ''Savings''
             ''0f8fad5b-d9cb-469f-a165-70867728950e'' (Date 2024 5 17)))
     ''7c9e6679'' = None
   \<and> snd (delete_account
       (fst (create_account BankingSystem_init ''Alice'' 100 ''Savings''
               ''0f8fad5b-d9cb-469f-a165-70867728950e'' (Date 2024 5 17)))
       ''7c9e6679'') = None
   \<and> snd (delete_account
       (fst (create_account BankingSystem_init ''Alice'' 100 ''Savings''
               ''0f8fad5b-d9cb-469f-a165-70867728950e'' (Date 2024 5 17)))
       ''0f8fad5b'')
     = Some (BankAccount_init ''Alice'' 100 ''Savings''
               ''0f8fad5b-d9cb-469f-a165-70867728950e'' (Date 2024 5 17))
   \<and> get_account
       (fst (delete_account
          (fst (create_account BankingSystem_init ''Alice'' 100 ''Savings''
                  ''0f8fad5b-d9cb-469f-a165-70867728950e'' (Date 2024 5 17)))
          ''0f8fad5b''))
       ''0f8fad5b'' = None"
proof -
  let ?acc = "BankAccount_init ''Alice'' 100 ''Savings''
                ''0f8fad5b-d9cb-469f-a165-70867728950e'' (Date 2024 5 17)"
  let ?s = "fst (create_account BankingSystem_init ''Alice'' 100 ''Savings''
                   ''0f8fad5b-d9cb-469f-a165-70867728950e'' (Date 2024 5 17))"
  have absent: "''7c9e6679'' \<notin> dom (accounts ?s)"
    by (simp add: create_account_def BankAccount_init_def BankingSystem_init_def Let_def)
  have present: "accounts ?s ''0f8fad5b'' = Some ?acc"
    by (simp add: create_account_def BankAccount_init_def BankingSystem_init_def Let_def)
  note absent_case = lookup_and_delete [where acc_number = "''7c9e6679''" and self = ?s,
                         THEN conjunct1, THEN mp, OF absent]
  note present_case = lookup_and_delete [where acc_number = "''0f8fad5b''" and self = ?s,
                         THEN conjunct2, THEN conjunct1, THEN mp, OF present]
  have a: "get_account ?s ''7c9e6679'' = None"
    by (rule absent_case [THEN conjunct1])
  have b: "snd (delete_account ?s ''7c9e6679'') = None"
    by (simp only: absent_case [THEN conjunct2] snd_conv)
  have c: "snd (delete_account ?s ''0f8fad5b'') = Some ?acc"
    by (rule present_case [THEN conjunct1])
  have d: "get_account (fst (delete_account ?s ''0f8fad5b'')) ''0f8fad5b'' = None"
    by (rule lookup_and_delete [where acc_number = "''0f8fad5b''" and self = ?s,
               THEN conjunct2, THEN conjunct2])
  show ?thesis by (intro conjI a b c d)
qed

text \<open>
  C7, as the code has it. The id of an account is the first 8 characters of the text of
  a random UUID, and the registry neither compares it with the ids in use nor remembers
  the ids it has handed out. So, for every state of the registry and every sequence of
  \<open>create_account\<close> and \<open>delete_account\<close> calls, the ids returned are exactly the
  8-character prefixes of the UUID texts drawn, in order; they are pairwise distinct, also
  across deletions, whenever those prefixes are pairwise distinct.
\<close>

theorem ids_are_drawn_prefixes:
  "created_ids (snd (do_ledger_calls self cs)) = drawn_prefixes cs \<and>
   (distinct (drawn_prefixes cs) \<longrightarrow> distinct (created_ids (snd (do_ledger_calls self cs))))"
  by (simp add: ledger_calls_ids)

theorem ids_are_drawn_prefixes_witness:
  "distinct (created_ids (snd (do_ledger_calls BankingSystem_init
      [CreateCall ''Alice'' 100 ''Savings'' ''0f8fad5b-d9cb-469f-a165-70867728950e'' (Date 2024 5 17),
       DeleteCall ''0f8fad5b'',
       CreateCall ''Bob'' 5 ''Checking'' ''7c9e6679-7425-40de-944b-e07fc1f90ae7'' (Date 2024 5 18)])))"
proof -
  let ?cs = "[CreateCall ''Alice'' 100 ''Savings'' ''0f8fad5b-d9cb-469f-a165-70867728950e'' (Date 2024 5 17),
       DeleteCall ''0f8fad5b'',
       CreateCall ''Bob'' 5 ''Checking'' ''7c9e6679-7425-40de-944b-e07fc1f90ae7'' (Date 2024 5 18)]"
  have "distinct (drawn_prefixes ?cs)" by simp
  then show ?thesis
    by (rule ids_are_drawn_prefixes [of BankingSystem_init ?cs, THEN conjunct2, THEN mp])
qed

text \<open>
  C7 as stated fails: two UUID texts that agree on their first 8 characters give two
  accounts the same id, here also after the first account was deleted.
\<close>

theorem unique_ids_counterexample:
  "\<not> distinct (created_ids (snd (do_ledger_calls BankingSystem_init
      [CreateCall ''Alice'' 100 ''Savings'' ''0f8fad5b-d9cb-469f-a165-70867728950e'' (Date 2024 5 17),
       DeleteCall ''0f8fad5b'',
       CreateCall ''Bob'' 5 ''Checking'' ''0f8fad5b-1c2e-4b7a-8d3f-9a6b5c4d3e2f'' (Date 2024 5 18)])))"
  unfolding ledger_calls_ids by simp

text \<open>
  C8. In every state of the registry, with every UUID text and date:
  \<open>create_account("Alice", 100, "Savings")\<close> returns an id under which \<open>get_account\<close>
  finds the account just constructed, and the details text of that account contains
  \<open>Alice\<close>, \<open>Savings\<close> and \<open>100.00\<close>.
\<close>

theorem create_then_details:
  "create_account self ''Alice'' 100 ''Savings'' uuid4 today = (self', acc_number) \<Longrightarrow>
   get_account self' acc_number = Some (BankAccount_init ''Alice'' 100 ''Savings'' uuid4 today) \<and>
   (\<exists>acc. get_account self' acc_number = Some acc \<and>
          sublist ''Alice'' (get_details acc) \<and>
          sublist ''Savings'' (get_details acc) \<and>
          sublist ''100.00'' (get_details acc))"
proof -
  let ?acc = "BankAccount_init ''Alice'' 100 ''Savings'' uuid4 today"
  assume "create_account self ''Alice'' 100 ''Savings'' uuid4 today = (self', acc_number)"
  then have found: "get_account self' acc_number = Some ?acc"
    by (auto simp: create_account_def get_account_def Let_def)
  have "format_2f (balance ?acc) = ''100.00''"
    by (simp add: BankAccount_init_def format_2f_def str_nat_100)
  with details_balance [of ?acc] have "sublist ''100.00'' (get_details ?acc)" by simp
  moreover from details_holder [of ?acc] have "sublist ''Alice'' (get_details ?acc)"
    by (simp add: BankAccount_init_def)
  moreover from details_type [of ?acc] have "sublist ''Savings'' (get_details ?acc)"
    by (simp add: BankAccount_init_def)
  ultimately show ?thesis using found by blast
qed

theorem create_then_details_witness:
  "get_account
     (fst (create_account BankingSystem_init ''Alice'' 100 ''Savings''
             ''0f8fad5b-d9cb-469f-a165-70867728950e'' (Date 2024 5 17)))
     (snd (create_account BankingSystem_init ''Alice'' 100 ''Savings''
             ''0f8fad5b-d9cb-469f-a165-70867728950e'' (Date 2024 5 17)))
   = Some (BankAccount_init ''Alice'' 100 ''Savings''
             ''0f8fad5b-d9cb-469f-a165-70867728950e'' (Date 2024 5 17))
   \<and> get_details (BankAccount_init ''Alice'' 100 ''Savings''
                    ''0f8fad5b-d9cb-469f-a165-70867728950e'' (Date 2024 5 17))
     = ''Account: 0f8fad5b'' @ [CHR 0x0A] @ ''Holder: Alice'' @ [CHR 0x0A] @ ''Type: Savings'' @
       [CHR 0x0A] @ ''Balance: $100.00'' @ [CHR 0x0A] @ ''Created: 2024-05-17''"
proof -
  let ?s = "BankingSystem_init"
  let ?u = "''0f8fad5b-d9cb-469f-a165-70867728950e''"
  let ?d = "Date 2024 5 17"
  have run: "create_account ?s ''Alice'' 100 ''Savings'' ?u ?d =
     (fst (create_account ?s ''Alice'' 100 ''Savings'' ?u ?d),
      snd (create_account ?s ''Alice'' 100 ''Savings'' ?u ?d))"
    by simp
  have "get_details (BankAccount_init ''Alice'' 100 ''Savings'' ?u ?d)
     = ''Account: 0f8fad5b'' @ [CHR 0x0A] @ ''Holder: Alice'' @ [CHR 0x0A] @ ''Type: Savings'' @
       [CHR 0x0A] @ ''Balance: $100.00'' @ [CHR 0x0A] @ ''Created: 2024-05-17''"
    by (simp add: get_details_def BankAccount_init_def format_2f_def zero_pad_def str_nat.simps)
  with create_then_details [OF run, THEN conjunct1] show ?thesis by (intro conjI)
qed

subsection \<open>What the code does beyond the specification\<close>

text \<open>
  C9. The only test \<open>withdraw\<close> makes is \<open>amount > balance\<close>. So for every account and
  every negative amount that does not exceed the balance, the withdrawal goes through
  (the returned text is not the refusal), the balance grows by the absolute value of the
  amount, and the appended Withdraw record stores \<open>-amount\<close>, a positive number.
\<close>

theorem withdraw_negative_amount:
  "amount < 0 \<Longrightarrow> amount \<le> balance self \<Longrightarrow> withdraw self amount now = (self', msg) \<Longrightarrow>
   msg \<noteq> ''Insufficient funds.'' \<and>
   balance self' = balance self + \<bar>amount\<bar> \<and>
   balance self < balance self' \<and>
   transactions self' = transactions self @ [(''Withdraw'', \<bar>amount\<bar>, now)] \<and>
   0 < \<bar>amount\<bar>"
proof -
  assume neg: "amount < 0" and le: "amount \<le> balance self"
    and run: "withdraw self amount now = (self', msg)"
  from run withdraw_eq [OF le, of now]
  have self': "self' = self\<lparr>balance := balance self - amount,
                 transactions := transactions self @ [(''Withdraw'', - amount, now)]\<rparr>"
    and msg: "msg = ''Withdrew $'' @ format_2f amount @ ''. New balance: $'' @
                    format_2f (balance self - amount)"
    by simp_all
  have "msg \<noteq> ''Insufficient funds.''" unfolding msg by simp
  moreover from neg have "- amount = \<bar>amount\<bar>" by simp
  ultimately show ?thesis using neg self' by simp
qed

theorem withdraw_negative_amount_witness:
  "withdraw (BankAccount_init ''Bob'' 100 ''Savings'' ''0f8fad5b-d9cb-469f-a165-70867728950e'' (Date 2024 5 17))
            (- 40) (DateTime (Date 2024 5 18) 9 30 0 0)
   = (\<lparr> account_number = ''0f8fad5b'', account_holder_name = ''Bob'', balance = 140,
        account_type = ''Savings'',
        transactions = [(''Withdraw'', 40, DateTime (Date 2024 5 18) 9 30 0 0)],
        creation_date = Date 2024 5 17 \<rparr>,
      ''Withdrew $-40.00. New balance: $140.00'')
   \<and> (140::int) = 100 + \<bar>- 40\<bar>"
proof -
  let ?a = "BankAccount_init ''Bob'' 100 ''Savings'' ''0f8fad5b-d9cb-469f-a165-70867728950e'' (Date 2024 5 17)"
  let ?t = "DateTime (Date 2024 5 18) 9 30 0 0"
  let ?a' = "\<lparr> account_number = ''0f8fad5b'', account_holder_name = ''Bob'', balance = 140,
        account_type = ''Savings'',
        transactions = [(''Withdraw'', 40, DateTime (Date 2024 5 18) 9 30 0 0)],
        creation_date = Date 2024 5 17 \<rparr>"
  have fmt: "format_2f (- 40) = ''-40.00''" "format_2f 140 = ''140.00''"
    by (simp_all add: format_2f_def str_nat.simps)
  have neg: "(- 40 :: int) < 0" by simp
  have le: "- 40 \<le> balance ?a" by (simp add: BankAccount_init_def)
  have run: "withdraw ?a (- 40) ?t = (?a', ''Withdrew $-40.00. New balance: $140.00'')"
    by (simp add: withdraw_def BankAccount_init_def Let_def fmt)
  from withdraw_negative_amount [OF neg le run]
  have "balance ?a' = balance ?a + \<bar>- 40\<bar>" by blast
  then have "(140::int) = 100 + \<bar>- 40\<bar>" by (simp add: BankAccount_init_def)
  with run show ?thesis by (intro conjI)
qed

text \<open>
  C10. \<open>create_account\<close> stores the new account with a plain assignment into the
  dictionary. If the first 8 characters of the UUID text drawn already are the key of a
  stored account, the call still returns that id as usual, the registry holds the new
  account under it, the set of keys is the same as before (no entry was added, so the
  account that was there is no longer in the registry under this key), and every other
  entry is as it was.
\<close>

theorem create_account_overwrites:
  "accounts self (take 8 uuid4) = Some old \<Longrightarrow>
   create_account self name bal acc_type uuid4 today = (self', acc_number) \<Longrightarrow>
   acc_number = take 8 uuid4 \<and>
   get_account self' acc_number = Some (BankAccount_init name bal acc_type uuid4 today) \<and>
   dom (accounts self') = dom (accounts self) \<and>
   (\<forall>k. k \<noteq> acc_number \<longrightarrow> get_account self' k = get_account self k)"
proof -
  let ?acc = "BankAccount_init name bal acc_type uuid4 today"
  assume there: "accounts self (take 8 uuid4) = Some old"
    and run: "create_account self name bal acc_type uuid4 today = (self', acc_number)"
  have num: "account_number ?acc = take 8 uuid4" by (simp add: BankAccount_init_def)
  from run have self': "self' = self\<lparr>accounts := (accounts self)(take 8 uuid4 \<mapsto> ?acc)\<rparr>"
    and id: "acc_number = take 8 uuid4"
    by (auto simp: create_account_def Let_def num)
  from there have "take 8 uuid4 \<in> dom (accounts self)" by (simp add: domIff)
  then have "dom (accounts self') = dom (accounts self)"
    unfolding self' by (auto simp: insert_absorb)
  moreover have "get_account self' acc_number = Some ?acc"
    by (simp add: self' id get_account_def)
  moreover have "\<forall>k. k \<noteq> acc_number \<longrightarrow> get_account self' k = get_account self k"
    by (simp add: self' id get_account_def)
  ultimately show ?thesis using id by blast
qed

theorem create_account_overwrites_witness:
  "get_account
     (fst (create_account
        (fst (create_account BankingSystem_init ''Alice'' 100 ''Savings''
                ''0f8fad5b-d9cb-469f-a165-70867728950e'' (Date 2024 5 17)))
        ''Bob'' 5 ''Checking'' ''0f8fad5b-1c2e-4b7a-8d3f-9a6b5c4d3e2f'' (Date 2024 5 18)))
     ''0f8fad5b''
   = Some (BankAccount_init ''Bob'' 5 ''Checking'' ''0f8fad5b-1c2e-4b7a-8d3f-9a6b5c4d3e2f'' (Date 2024 5 18))
   \<and> dom (accounts
       (fst (create_account
          (fst (create_account BankingSystem_init ''Alice'' 100 ''Savings''
                  ''0f8fad5b-d9cb-469f-a165-70867728950e'' (Date 2024 5 17)))
          ''Bob'' 5 ''Checking'' ''0f8fad5b-1c2e-4b7a-8d3f-9a6b5c4d3e2f'' (Date 2024 5 18))))
     = {''0f8fad5b''}"
proof -
  let ?s = "fst (create_account BankingSystem_init ''Alice'' 100 ''Savings''
                   ''0f8fad5b-d9cb-469f-a165-70867728950e'' (Date 2024 5 17))"
  let ?alice = "BankAccount_init ''Alice'' 100 ''Savings''
                  ''0f8fad5b-d9cb-469f-a165-70867728950e'' (Date 2024 5 17)"
  let ?u = "''0f8fad5b-1c2e-4b7a-8d3f-9a6b5c4d3e2f''"
  let ?run = "create_account ?s ''Bob'' 5 ''Checking'' ?u (Date 2024 5 18)"
  have there: "accounts ?s (take 8 ?u) = Some ?alice"
    by (simp add: create_account_def BankAccount_init_def BankingSystem_init_def Let_def)
  have run: "?run = (fst ?run, snd ?run)" by simp
  have keys: "dom (accounts ?s) = {''0f8fad5b''}"
    by (simp add: create_account_def BankAccount_init_def BankingSystem_init_def Let_def)
  have id: "take 8 ?u = ''0f8fad5b''" by simp
  note facts = create_account_overwrites [OF there run]
  have "get_account (fst ?run) (snd ?run) =
          Some (BankAccount_init ''Bob'' 5 ''Checking'' ?u (Date 2024 5 18))"
    by (rule facts [THEN conjunct2, THEN conjunct1])
  then have stored: "get_account (fst ?run) ''0f8fad5b'' =
          Some (BankAccount_init ''Bob'' 5 ''Checking'' ?u (Date 2024 5 18))"
    by (simp only: facts [THEN conjunct1] id)
  have "dom (accounts (fst ?run)) = dom (accounts ?s)"
    by (rule facts [THEN conjunct2, THEN conjunct2, THEN conjunct1])
  then have "dom (accounts (fst ?run)) = {''0f8fad5b''}"
    by (simp only: keys)
  with stored show ?thesis by (intro conjI)
qed

end
